theory Spec2Isabelle
  imports Main "HOL-Library.AList" "HOL-Library.Char_ord" "HOL-Library.List_Lexorder"
begin

section \<open>Python values used by the storage clients\<close>

text \<open>
  A \<open>str\<close> is a \<open>char list\<close>, one \<open>char\<close> per code point; the model is exact on ASCII
  text, which is what header names, URLs, timestamps and XML markup are. A \<open>bytes\<close> value is
  a \<open>char list\<close> too, so \<open>encode("utf-8")\<close> and \<open>decode("utf-8")\<close> are the identity.
  Lists of strings are ordered as Python orders them: lexicographically, by code point.
\<close>

datatype error =
    KeyError string
  | TypeError
  | AttributeError
  | ValueError
  | IndexError
  | HTTPError int
  | ParseError
  | OSError string
  | TransportError string

definition nl :: string where
  "nl = [CHR 0x0A]"

definition lower_char :: "char \<Rightarrow> char" where
  "lower_char c =
     (let n = (of_char c :: nat) in if 65 \<le> n \<and> n \<le> 90 then char_of (n + 32) else c)"

definition lower :: "string \<Rightarrow> string" where
  "lower s = map lower_char s"

text \<open>The characters \<open>str.strip()\<close> and \<open>str.isspace()\<close> take for white space.\<close>

definition isspace_char :: "char \<Rightarrow> bool" where
  "isspace_char c =
     (let n = (of_char c :: nat) in (9 \<le> n \<and> n \<le> 13) \<or> (28 \<le> n \<and> n \<le> 32))"

definition isspace :: "string \<Rightarrow> bool" where
  "isspace s = (s \<noteq> [] \<and> list_all isspace_char s)"

definition strip :: "string \<Rightarrow> string" where
  "strip s = rev (dropWhile isspace_char (rev (dropWhile isspace_char s)))"

definition lstrip_chars :: "string \<Rightarrow> string \<Rightarrow> string" where
  "lstrip_chars cs s = dropWhile (\<lambda>c. c \<in> set cs) s"

definition replace_char :: "char \<Rightarrow> char \<Rightarrow> string \<Rightarrow> string" where
  "replace_char a b s = map (\<lambda>c. if c = a then b else c) s"

fun join :: "string \<Rightarrow> string list \<Rightarrow> string" where
  "join sep [] = []"
| "join sep [x] = x"
| "join sep (x # y # ys) = x @ sep @ join sep (y # ys)"

text \<open>\<open>RE_MULTIPLE_SPACES.sub(" ", s)\<close>: every maximal run of spaces becomes one space.\<close>

fun re_multiple_spaces_sub :: "string \<Rightarrow> string" where
  "re_multiple_spaces_sub (a # b # cs) =
     (if a = CHR '' '' \<and> b = CHR '' '' then re_multiple_spaces_sub (b # cs)
      else a # re_multiple_spaces_sub (b # cs))"
| "re_multiple_spaces_sub cs = cs"

text \<open>
  A \<open>dict\<close> is an association list with distinct keys in insertion order;
  \<open>d[k] = v\<close> is \<open>AList.update k v d\<close>, which overwrites in place or appends.
\<close>

type_synonym ('k, 'v) dict = "('k \<times> 'v) list"

definition getitem :: "(string, 'v) dict \<Rightarrow> string \<Rightarrow> error + 'v" where
  "getitem d k = (case map_of d k of None \<Rightarrow> Inl (KeyError k) | Some v \<Rightarrow> Inr v)"

definition dict_update :: "('k, 'v) dict \<Rightarrow> ('k, 'v) dict \<Rightarrow> ('k, 'v) dict" where
  "dict_update d other = fold (\<lambda>(k, v). AList.update k v) other d"

text \<open>A header value: a string, a list of strings, or \<open>None\<close>.\<close>

datatype hval = HStr string | HList "string list" | HNone

section \<open>Header canonicalization\<close>

text \<open>\<open>[(k, low_key_dict[k]) for k in sorted_headers]\<close>: the first missing key raises.\<close>

fun getitems :: "(string, 'v) dict \<Rightarrow> string list \<Rightarrow> error + (string \<times> 'v) list" where
  "getitems d [] = Inr []"
| "getitems d (k # ks) =
     (case getitem d k of
        Inl e \<Rightarrow> Inl e
      | Inr v \<Rightarrow> (case getitems d ks of Inl e \<Rightarrow> Inl e | Inr r \<Rightarrow> Inr ((k, v) # r)))"

text \<open>One turn of the loop over \<open>_res\<close>; \<open>v.strip()\<close> on \<open>None\<close> raises.\<close>

definition canonical_line :: "string \<Rightarrow> hval \<Rightarrow> error + string" where
  "canonical_line k v =
     (case (case v of HList vs \<Rightarrow> HStr (join '','' vs) | _ \<Rightarrow> v) of
        HStr s \<Rightarrow>
          Inr (strip (replace_char (CHR 0x0A) (CHR '' '') k) @ '':'' @
               re_multiple_spaces_sub (strip s))
      | _ \<Rightarrow> Inl AttributeError)"

fun canonical_lines :: "(string \<times> hval) list \<Rightarrow> error + string list" where
  "canonical_lines [] = Inr []"
| "canonical_lines ((k, v) # kvs) =
     (case canonical_line k v of
        Inl e \<Rightarrow> Inl e
      | Inr l \<Rightarrow> (case canonical_lines kvs of Inl e \<Rightarrow> Inl e | Inr ls \<Rightarrow> Inr (l # ls)))"

definition construct_canonicalized_and_signed_headers ::
  "(string, hval) dict \<Rightarrow> error + (string \<times> string)" where
  "construct_canonicalized_and_signed_headers headers =
     (let low_key_dict = fold (\<lambda>(k, v). AList.update (lower k) v) headers [];
          sorted_headers = sort (map fst headers)
      in case getitems low_key_dict sorted_headers of
           Inl e \<Rightarrow> Inl e
         | Inr res0 \<Rightarrow>
             (case canonical_lines res0 of
                Inl e \<Rightarrow> Inl e
              | Inr res \<Rightarrow>
                  (let ans = join nl res;
                       ans' = (if ans \<noteq> [] then ans @ nl else ans)
                   in Inr (ans', join '';'' sorted_headers))))"


section \<open>Numbers and text\<close>

definition digit_char :: "nat \<Rightarrow> char" where
  "digit_char n = char_of (48 + n)"

fun str_nat :: "nat \<Rightarrow> string" where
  "str_nat n = (if n < 10 then [digit_char n] else str_nat (n div 10) @ [digit_char (n mod 10)])"

declare str_nat.simps [simp del]

text \<open>\<open>str(i)\<close> and \<open>f"{i}"\<close> for an \<open>int\<close>.\<close>

definition str_int :: "int \<Rightarrow> string" where
  "str_int i = (if i < 0 then ''-'' @ str_nat (nat (- i)) else str_nat (nat i))"

definition digit_val :: "char \<Rightarrow> nat option" where
  "digit_val c =
     (let n = (of_char c :: nat) in if 48 \<le> n \<and> n \<le> 57 then Some (n - 48) else None)"

text \<open>
  The digits of an integer literal as \<open>int(s)\<close> reads them: at least one digit, and single
  underscores between digits.
\<close>

fun int_digits :: "nat \<Rightarrow> string \<Rightarrow> nat option" where
  "int_digits acc [] = None"
| "int_digits acc (c # cs) =
     (case digit_val c of
        None \<Rightarrow> None
      | Some v \<Rightarrow>
          (case cs of
             [] \<Rightarrow> Some (10 * acc + v)
           | u # us \<Rightarrow>
               if u = CHR ''_'' then int_digits (10 * acc + v) us
               else int_digits (10 * acc + v) cs))"

definition int_of_str :: "string \<Rightarrow> error + int" where
  "int_of_str s =
     (case strip s of
        [] \<Rightarrow> Inl ValueError
      | c # cs \<Rightarrow>
          (if c = CHR ''-'' then
             (case int_digits 0 cs of None \<Rightarrow> Inl ValueError | Some n \<Rightarrow> Inr (- int n))
           else if c = CHR ''+'' then
             (case int_digits 0 cs of None \<Rightarrow> Inl ValueError | Some n \<Rightarrow> Inr (int n))
           else
             (case int_digits 0 (c # cs) of None \<Rightarrow> Inl ValueError | Some n \<Rightarrow> Inr (int n))))"

text \<open>\<open>int(x)\<close> where \<open>x\<close> may be \<open>None\<close>.\<close>

definition py_int :: "string option \<Rightarrow> error + int" where
  "py_int x = (case x of None \<Rightarrow> Inl TypeError | Some s \<Rightarrow> int_of_str s)"

definition hex_digit :: "nat \<Rightarrow> char" where
  "hex_digit n = (if n < 10 then char_of (48 + n) else char_of (87 + n))"

definition hex_digit_upper :: "nat \<Rightarrow> char" where
  "hex_digit_upper n = (if n < 10 then char_of (48 + n) else char_of (55 + n))"

definition hexlify :: "string \<Rightarrow> string" where
  "hexlify s = concat (map (\<lambda>c. [hex_digit (of_char c div 16), hex_digit (of_char c mod 16)]) s)"

text \<open>\<open>urllib.parse.quote\<close> with its default \<open>safe="/"\<close>.\<close>

definition quote_safe :: "char \<Rightarrow> bool" where
  "quote_safe c =
     (let n = (of_char c :: nat)
      in (48 \<le> n \<and> n \<le> 57) \<or> (65 \<le> n \<and> n \<le> 90) \<or> (97 \<le> n \<and> n \<le> 122) \<or> c \<in> set ''_.-~/'')"

definition quote :: "string \<Rightarrow> string" where
  "quote s =
     concat (map (\<lambda>c. if quote_safe c then [c]
                        else [CHR ''%'', hex_digit_upper (of_char c div 16),
                              hex_digit_upper (of_char c mod 16)]) s)"

text \<open>\<open>s.split(sep)\<close> and \<open>s.partition(sep)\<close> for a separator of one character.\<close>

fun split_char :: "char \<Rightarrow> string \<Rightarrow> string list" where
  "split_char sep [] = [[]]"
| "split_char sep (c # cs) =
     (if c = sep then [] # split_char sep cs
      else (case split_char sep cs of [] \<Rightarrow> [[c]] | w # ws \<Rightarrow> (c # w) # ws))"

definition partition_char :: "char \<Rightarrow> string \<Rightarrow> string \<times> string" where
  "partition_char sep s =
     (takeWhile (\<lambda>c. c \<noteq> sep) s, drop 1 (dropWhile (\<lambda>c. c \<noteq> sep) s))"

text \<open>\<open>xs[i] = v\<close> on a list: a negative index counts from the end, out of range raises.\<close>

definition list_setitem :: "'a list \<Rightarrow> int \<Rightarrow> 'a \<Rightarrow> error + 'a list" where
  "list_setitem xs i v =
     (let n = int (length xs); j = (if i < 0 then n + i else i)
      in if 0 \<le> j \<and> j < n then Inr (xs[nat j := v]) else Inl IndexError)"

section \<open>XML elements\<close>

text \<open>
  An \<open>ElementTree\<close> element as the clients use it: a tag, the text before the first child
  (\<open>None\<close> when there is none) and the children. Attributes and tails are never read or
  written by the clients.
\<close>

datatype xml = Element (elem_tag: string) (elem_text: "string option") (elem_children: "xml list")

text \<open>\<open>elem.find(tag)\<close>: the first child with that tag.\<close>

definition elem_find :: "string \<Rightarrow> xml \<Rightarrow> xml option" where
  "elem_find t e = List.find (\<lambda>c. elem_tag c = t) (elem_children e)"

text \<open>\<open>elem[i]\<close> for \<open>i \<ge> 0\<close>.\<close>

definition elem_getitem :: "xml \<Rightarrow> nat \<Rightarrow> error + xml" where
  "elem_getitem e i =
     (if i < length (elem_children e) then Inr (elem_children e ! i) else Inl IndexError)"

definition escape_cdata :: "string \<Rightarrow> string" where
  "escape_cdata s =
     concat (map (\<lambda>c. if c = CHR ''&'' then ''&amp;'' else if c = CHR ''<'' then ''&lt;''
                        else if c = CHR ''>'' then ''&gt;'' else [c]) s)"

text \<open>\<open>ET.tostring(elem)\<close>: no declaration, an element with neither text nor children is
  written short.\<close>

fun tostring :: "xml \<Rightarrow> string" where
  "tostring (Element t txt cs) =
     (if (txt \<noteq> None \<and> txt \<noteq> Some []) \<or> cs \<noteq> [] then
        ''<'' @ t @ ''>'' @ (case txt of None \<Rightarrow> [] | Some s \<Rightarrow> escape_cdata s) @
        concat (map tostring cs) @ ''</'' @ t @ ''>''
      else ''<'' @ t @ '' />'')"

section \<open>Requests, responses and what the client does not own\<close>

definition META_PREFIX :: string where "META_PREFIX = ''x-amz-meta-''"
definition SFC_DIGEST :: string where "SFC_DIGEST = ''sfc-digest''"
definition AMZ_MATDESC :: string where "AMZ_MATDESC = ''x-amz-matdesc''"
definition AMZ_KEY :: string where "AMZ_KEY = ''x-amz-key''"
definition AMZ_IV :: string where "AMZ_IV = ''x-amz-iv''"
definition EXPIRED_TOKEN :: string where "EXPIRED_TOKEN = ''ExpiredToken''"

text \<open>
  Modelled from the spec: the job's status enumeration of \<open>constants.ResultStatus\<close>
  (pending, uploaded, downloaded, not-found, error, skipped); its declaration is not among
  the sources.
\<close>

datatype result_status = PENDING | UPLOADED | DOWNLOADED | NOT_FOUND_FILE | ERROR | SKIPPED

datatype retry_id = RStr string | RInt int

text \<open>The parts of \<open>urlparse(url)\<close> that the signer reads.\<close>

record parsed_url =
  url_path :: string
  url_params :: string
  url_query :: string
  url_hostname :: "string option"

text \<open>
  What the signing callback reads each time it is called: the clock, already formatted by
  \<open>strftime("%Y%m%dT%H%M%SZ")\<close>, and the credentials of the moment.
\<close>

record sign_env =
  amzdate_now :: string
  creds :: "(string, string) dict"

record rest_args =
  args_headers :: "(string, hval) dict"
  args_data :: "string option"

text \<open>
  A \<open>requests.Response\<close>. Its headers are a case-insensitive dictionary: the items are kept
  with distinct lower-cased names and looked up by lower-cased name.
\<close>

record response =
  status_code :: int
  resp_headers :: "(string, string) dict"
  content :: string

definition response_text :: "response \<Rightarrow> string" where
  "response_text r = content r"

definition ci_get :: "(string, string) dict \<Rightarrow> string \<Rightarrow> string option" where
  "ci_get hs k = map_of (map (\<lambda>(n, v). (lower n, v)) hs) (lower k)"

definition ci_getitem :: "(string, string) dict \<Rightarrow> string \<Rightarrow> error + string" where
  "ci_getitem hs k = (case ci_get hs k of None \<Rightarrow> Inl (KeyError k) | Some v \<Rightarrow> Inr v)"

definition raise_for_status :: "response \<Rightarrow> error + unit" where
  "raise_for_status r =
     (if 400 \<le> status_code r \<and> status_code r < 600 then Inl (HTTPError (status_code r))
      else Inr ())"

text \<open>The arguments of one call of \<open>_send_request_with_authentication_and_retry\<close>.\<close>

record request =
  url :: string
  verb :: string
  retry_id :: retry_id
  x_amz_headers :: "(string, hval) dict option"
  req_headers :: "(string, hval) dict option"
  data :: "string option"

text \<open>
  The libraries and the base class \<open>SnowflakeStorageClient\<close>, whose code is not among the
  sources, are parameters: the two cryptographic primitives, \<open>urlparse\<close>,
  \<open>ET.fromstring\<close>, the dispatcher \<open>_send_request_with_retry\<close> (it is handed the verb, the
  signing callback, the retry key and the retry counters, and returns the response or the
  error it raises, with the counters as it leaves them), \<open>write_downloaded_chunk\<close> and the
  two header constants of \<open>constants\<close>.
\<close>

record deps =
  sha256 :: "string \<Rightarrow> string"
  hmac_sha256 :: "string \<Rightarrow> string \<Rightarrow> string"
  urlparse :: "string \<Rightarrow> parsed_url"
  fromstring :: "string \<Rightarrow> error + xml"
  send_request_with_retry ::
    "string \<Rightarrow> (sign_env \<Rightarrow> error + string \<times> rest_args) \<Rightarrow> retry_id \<Rightarrow> (retry_id \<rightharpoonup> int)
       \<Rightarrow> (error + response) \<times> (retry_id \<rightharpoonup> int)"
  write_downloaded_chunk :: "int \<Rightarrow> string \<Rightarrow> error + unit"
  HTTP_HEADER_CONTENT_TYPE :: string
  HTTP_HEADER_VALUE_OCTET_STREAM :: string

section \<open>The signer\<close>

definition sign_bytes :: "deps \<Rightarrow> string \<Rightarrow> string \<Rightarrow> string" where
  "sign_bytes d secret_key input = hmac_sha256 d secret_key input"

definition sign_bytes_hex :: "deps \<Rightarrow> string \<Rightarrow> string \<Rightarrow> string" where
  "sign_bytes_hex d secret_key input = hexlify (sign_bytes d secret_key input)"

definition hash_bytes :: "deps \<Rightarrow> string \<Rightarrow> string" where
  "hash_bytes d input = sha256 d input"

definition hash_bytes_hex :: "deps \<Rightarrow> string \<Rightarrow> string" where
  "hash_bytes_hex d input = hexlify (hash_bytes d input)"

definition construct_canonical_request_and_signed_headers ::
  "deps \<Rightarrow> string \<Rightarrow> string \<Rightarrow> string \<Rightarrow> (string, hval) dict \<Rightarrow> string
     \<Rightarrow> error + (string \<times> string)" where
  "construct_canonical_request_and_signed_headers d verb0 canonical_uri_parameter query
       canonical_headers payload =
     (let kv = (if query \<noteq> []
                then sort_key fst (map (partition_char (CHR ''='')) (split_char (CHR ''&'') query))
                else []);
          canonical_query_string = join ''&'' (map (\<lambda>(k, v). join ''='' [k, v]) kv)
      in case construct_canonicalized_and_signed_headers canonical_headers of
           Inl e \<Rightarrow> Inl e
         | Inr (canonical_block, signed_headers) \<Rightarrow>
             Inr (join nl
                    [verb0,
                     if canonical_uri_parameter \<noteq> [] then canonical_uri_parameter else ''/'',
                     canonical_query_string,
                     canonical_block,
                     signed_headers,
                     lower (hash_bytes_hex d payload)],
                  signed_headers))"

definition construct_string_to_sign ::
  "string \<Rightarrow> string \<Rightarrow> string \<Rightarrow> string \<Rightarrow> string \<times> string" where
  "construct_string_to_sign region service_name amzdate canonical_request_hash =
     (let short_amzdate = take 8 amzdate;
          scope = short_amzdate @ ''/'' @ region @ ''/'' @ service_name @ ''/aws4_request''
      in (join nl [''AWS4-HMAC-SHA256'', amzdate, scope, canonical_request_hash], scope))"

text \<open>The four derivations \<open>kDate\<close>, \<open>kRegion\<close>, \<open>kService\<close>, \<open>signing_key\<close> of the callback.\<close>

definition signing_key :: "deps \<Rightarrow> string \<Rightarrow> string \<Rightarrow> string \<Rightarrow> string" where
  "signing_key d secret short_amzdate region =
     (let kDate = sign_bytes d (''AWS4'' @ secret) short_amzdate;
          kRegion = sign_bytes d kDate region;
          kService = sign_bytes d kRegion ''s3''
      in sign_bytes d kService ''aws4_request'')"

text \<open>
  The signing callback \<open>generate_authenticated_url_and_args_v4\<close>, a closure over the
  arguments of the send; the dictionaries it updates are overwritten under the same keys on
  every call, so its result depends on nothing but what it reads at that call.
\<close>

definition generate_authenticated_url_and_args_v4 ::
  "deps \<Rightarrow> string \<Rightarrow> string \<Rightarrow> string \<Rightarrow> (string, hval) dict \<Rightarrow> (string, hval) dict \<Rightarrow> string
     \<Rightarrow> sign_env \<Rightarrow> error + (string \<times> rest_args)" where
  "generate_authenticated_url_and_args_v4 d region url0 verb0 x_amz hs dat env =
     (let parsed = urlparse d url0;
          amzdate = amzdate_now env;
          short_amzdate = take 8 amzdate;
          x1 = AList.update ''x-amz-date'' (HStr amzdate) x_amz;
          x2 = AList.update ''x-amz-security-token''
                 (HStr (case map_of (creds env) ''AWS_TOKEN'' of None \<Rightarrow> [] | Some t \<Rightarrow> t)) x1;
          x3 = AList.update ''host''
                 (case url_hostname (urlparse d url0) of None \<Rightarrow> HNone | Some h \<Rightarrow> HStr h) x2
      in case construct_canonical_request_and_signed_headers d verb0
                (url_path parsed @ (if url_params parsed \<noteq> [] then '';'' @ url_params parsed else []))
                (url_query parsed) x3 dat of
           Inl e \<Rightarrow> Inl e
         | Inr (canonical_request, signed_headers) \<Rightarrow>
             (let (string_to_sign, scope) =
                    construct_string_to_sign region ''s3'' amzdate
                      (lower (hash_bytes_hex d canonical_request))
              in case getitem (creds env) ''AWS_SECRET_KEY'' of
                   Inl e \<Rightarrow> Inl e
                 | Inr secret \<Rightarrow>
                     (let signature =
                            lower (sign_bytes_hex d (signing_key d secret short_amzdate region)
                                     string_to_sign)
                      in case getitem (creds env) ''AWS_KEY_ID'' of
                           Inl e \<Rightarrow> Inl e
                         | Inr key_id \<Rightarrow>
                             (let authorization_header =
                                    ''AWS4-HMAC-SHA256 '' @
                                    ''Credential='' @ key_id @ ''/'' @ scope @ '', '' @
                                    ''SignedHeaders='' @ signed_headers @ '', '' @
                                    ''Signature='' @ signature;
                                  hs' = AList.update ''Authorization'' (HStr authorization_header)
                                          (dict_update hs x3)
                              in Inr (url0,
                                      \<lparr>args_headers = hs',
                                       args_data = (if dat \<noteq> [] then Some dat else None)\<rparr>)))))"

section \<open>The expired-token classifier\<close>

definition has_expired_token :: "deps \<Rightarrow> response \<Rightarrow> error + bool" where
  "has_expired_token d resp =
     (if status_code resp \<noteq> 400 then Inr False
      else (let message = response_text resp
            in if message = [] \<or> isspace message then Inr False
               else (case fromstring d message of
                       Inl e \<Rightarrow> Inl e
                     | Inr err \<Rightarrow>
                         (case elem_find ''Code'' err of
                            None \<Rightarrow> Inl AttributeError
                          | Some c \<Rightarrow> Inr (elem_text c = Some EXPIRED_TOKEN)))))"

section \<open>The S3 client\<close>

record s3location =
  bucket_name :: string
  loc_path :: string

record encryption_metadata =
  enc_key :: "string option"
  enc_iv :: "string option"
  enc_matdesc :: "string option"

record file_header =
  digest :: "string option"
  content_length :: int
  header_encryption_metadata :: "encryption_metadata option"

text \<open>The fields of the job record \<open>SnowflakeFileMeta\<close> that the two clients read or write.\<close>

record file_meta =
  src_file_name :: string
  real_src_file_name :: string
  dst_file_name :: string
  src_stream :: "string option"
  real_src_stream :: "string option"
  stage_location :: string
  local_location :: string
  sha256_digest :: "string option"
  upload_size :: int
  dst_file_size :: int
  result_status :: result_status

text \<open>
  The client object. \<open>sent\<close> and \<open>written\<close> are not fields of the class: they record, in
  order, the calls handed to the dispatcher and to \<open>write_downloaded_chunk\<close>.
\<close>

record s3client =
  region_name :: string
  upload_id :: "string option"
  etags :: "string option list option"
  s3location :: s3location
  endpoint :: string
  num_of_chunks :: int
  chunk_size :: int
  retry_count :: "retry_id \<rightharpoonup> int"
  meta :: file_meta
  client_encryption_metadata :: "encryption_metadata option"
  sent :: "request list"
  written :: "(int \<times> string) list"

definition hval_of :: "string option \<Rightarrow> hval" where
  "hval_of x = (case x of None \<Rightarrow> HNone | Some s \<Rightarrow> HStr s)"

text \<open>The truth value of an optional string: \<open>None\<close> and the empty string are false.\<close>

definition truthy :: "string option \<Rightarrow> bool" where
  "truthy x = (x \<noteq> None \<and> x \<noteq> Some [])"

text \<open>\<open>f"{x}"\<close> for an optional string.\<close>

definition format_opt :: "string option \<Rightarrow> string" where
  "format_opt x = (case x of None \<Rightarrow> ''None'' | Some s \<Rightarrow> s)"

definition send_request_with_authentication_and_retry ::
  "deps \<Rightarrow> s3client \<Rightarrow> request \<Rightarrow> (error + response) \<times> s3client" where
  "send_request_with_authentication_and_retry d self r =
     (let x_amz = (case x_amz_headers r of None \<Rightarrow> [] | Some x \<Rightarrow> x);
          hs = (case req_headers r of None \<Rightarrow> [] | Some h \<Rightarrow> h);
          dat = (case data r of None \<Rightarrow> [] | Some b \<Rightarrow> b);
          x_amz' = AList.update ''x-amz-content-sha256'' (HStr (hash_bytes_hex d dat)) x_amz;
          (res, rc) = send_request_with_retry d (verb r)
                        (generate_authenticated_url_and_args_v4 d (region_name self) (url r)
                           (verb r) x_amz' hs dat)
                        (retry_id r) (retry_count self)
      in (res, self\<lparr>retry_count := rc, sent := sent self @ [r]\<rparr>))"

text \<open>
  Each operation is written in two parts: the request it sends (its lines up to the
  dispatcher's return), then what it does with the outcome.
\<close>

definition head_send ::
  "deps \<Rightarrow> s3client \<Rightarrow> string \<Rightarrow> (error + response) \<times> s3client" where
  "head_send d self filename =
     (let path = quote (loc_path (s3location self) @ lstrip_chars ''/'' filename);
          url0 = endpoint self @ ''/'' @ path;
          rid = RStr ''HEAD'';
          self1 = self\<lparr>retry_count := (retry_count self)(rid \<mapsto> 0)\<rparr>
      in send_request_with_authentication_and_retry d self1
           \<lparr>url = url0, verb = ''HEAD'', retry_id = rid, x_amz_headers = None,
            req_headers = None, data = None\<rparr>)"

definition get_file_header ::
  "deps \<Rightarrow> s3client \<Rightarrow> string \<Rightarrow> (error + file_header option) \<times> s3client" where
  "get_file_header d self filename =
     (let (res, self2) = head_send d self filename
      in case res of
           Inl e \<Rightarrow> (Inl e, self2)
         | Inr resp \<Rightarrow>
             if status_code resp = 200 then
               (let self3 = self2\<lparr>meta := (meta self2)\<lparr>result_status := UPLOADED\<rparr>\<rparr>;
                    metadata = resp_headers resp;
                    enc = (if truthy (ci_get metadata (META_PREFIX @ AMZ_KEY))
                           then Some \<lparr>enc_key = ci_get metadata (META_PREFIX @ AMZ_KEY),
                                      enc_iv = ci_get metadata (META_PREFIX @ AMZ_IV),
                                      enc_matdesc = ci_get metadata (META_PREFIX @ AMZ_MATDESC)\<rparr>
                           else None)
                in case py_int (ci_get metadata ''Content-Length'') of
                     Inl e \<Rightarrow> (Inl e, self3)
                   | Inr n \<Rightarrow>
                       (Inr (Some \<lparr>digest = ci_get metadata (META_PREFIX @ SFC_DIGEST),
                                   content_length = n,
                                   header_encryption_metadata = enc\<rparr>), self3))
             else if status_code resp = 404 then
               (Inr None, self2\<lparr>meta := (meta self2)\<lparr>result_status := NOT_FOUND_FILE\<rparr>\<rparr>)
             else
               (case raise_for_status resp of
                  Inl e \<Rightarrow> (Inl e, self2)
                | Inr u \<Rightarrow> (Inr None, self2)))"

definition prepare_file_metadata :: "s3client \<Rightarrow> (string, hval) dict" where
  "prepare_file_metadata self =
     (let s3_metadata = [(META_PREFIX @ SFC_DIGEST, hval_of (sha256_digest (meta self)))]
      in case client_encryption_metadata self of
           None \<Rightarrow> s3_metadata
         | Some em \<Rightarrow>
             dict_update s3_metadata
               [(META_PREFIX @ AMZ_IV, hval_of (enc_iv em)),
                (META_PREFIX @ AMZ_KEY, hval_of (enc_key em)),
                (META_PREFIX @ AMZ_MATDESC, hval_of (enc_matdesc em))])"

definition initiate_send :: "deps \<Rightarrow> s3client \<Rightarrow> (error + response) \<times> s3client" where
  "initiate_send d self =
     (let path = quote (loc_path (s3location self) @ lstrip_chars ''/'' (dst_file_name (meta self)));
          url0 = endpoint self @ ''/'' @ path @ ''?uploads'';
          s3_metadata = prepare_file_metadata self;
          rid = RStr ''Initiate'';
          self1 = self\<lparr>retry_count := (retry_count self)(rid \<mapsto> 0)\<rparr>
      in send_request_with_authentication_and_retry d self1
           \<lparr>url = url0, verb = ''POST'', retry_id = rid,
            x_amz_headers = Some s3_metadata,
            req_headers = Some [(HTTP_HEADER_CONTENT_TYPE d,
                                 HStr (HTTP_HEADER_VALUE_OCTET_STREAM d))],
            data = None\<rparr>)"

definition initiate_multipart_upload :: "deps \<Rightarrow> s3client \<Rightarrow> (error + unit) \<times> s3client" where
  "initiate_multipart_upload d self =
     (let (res, self2) = initiate_send d self
      in case res of
           Inl e \<Rightarrow> (Inl e, self2)
         | Inr resp \<Rightarrow>
             if status_code resp = 200 then
               (case fromstring d (content resp) of
                  Inl e \<Rightarrow> (Inl e, self2)
                | Inr root \<Rightarrow>
                    (case elem_getitem root 2 of
                       Inl e \<Rightarrow> (Inl e, self2)
                     | Inr el \<Rightarrow>
                         (Inr (),
                          self2\<lparr>upload_id := elem_text el,
                                etags := Some (replicate (nat (num_of_chunks self2)) None)\<rparr>)))
             else (raise_for_status resp, self2))"

definition part_send ::
  "deps \<Rightarrow> s3client \<Rightarrow> int \<Rightarrow> string \<Rightarrow> (error + response) \<times> s3client" where
  "part_send d self chunk_id chunk =
     (let path = quote (loc_path (s3location self) @ lstrip_chars ''/'' (dst_file_name (meta self)));
          url0 = endpoint self @ ''/'' @ path;
          chunk_url = url0 @ ''?partNumber='' @ str_int (chunk_id + 1) @
                      ''&uploadId='' @ format_opt (upload_id self)
      in send_request_with_authentication_and_retry d self
           \<lparr>url = chunk_url, verb = ''PUT'', retry_id = RInt chunk_id,
            x_amz_headers = None, req_headers = None, data = Some chunk\<rparr>)"

definition upload_chunk :: "deps \<Rightarrow> s3client \<Rightarrow> int \<Rightarrow> string \<Rightarrow> (error + unit) \<times> s3client" where
  "upload_chunk d self chunk_id chunk =
     (let path = quote (loc_path (s3location self) @ lstrip_chars ''/'' (dst_file_name (meta self)));
          url0 = endpoint self @ ''/'' @ path
      in if num_of_chunks self = 1 then
           (let s3_metadata = prepare_file_metadata self;
                (res, self1) = send_request_with_authentication_and_retry d self
                                 \<lparr>url = url0, verb = ''PUT'', retry_id = RInt chunk_id,
                                  x_amz_headers = Some s3_metadata,
                                  req_headers = Some [(HTTP_HEADER_CONTENT_TYPE d,
                                                       HStr (HTTP_HEADER_VALUE_OCTET_STREAM d))],
                                  data = Some chunk\<rparr>
            in case res of
                 Inl e \<Rightarrow> (Inl e, self1)
               | Inr resp \<Rightarrow> (raise_for_status resp, self1))
         else
           (let (res, self1) = part_send d self chunk_id chunk
            in case res of
                 Inl e \<Rightarrow> (Inl e, self1)
               | Inr resp \<Rightarrow>
                   if status_code resp = 200 then
                     (case ci_getitem (resp_headers resp) ''ETag'' of
                        Inl e \<Rightarrow> (Inl e, self1)
                      | Inr etag \<Rightarrow>
                          (case etags self1 of
                             None \<Rightarrow> (Inl TypeError, self1)
                           | Some es \<Rightarrow>
                               (case list_setitem es chunk_id (Some etag) of
                                  Inl e \<Rightarrow> (Inl e, self1)
                                | Inr es' \<Rightarrow>
                                    (raise_for_status resp, self1\<lparr>etags := Some es'\<rparr>))))
                   else (raise_for_status resp, self1)))"

text \<open>The document built by the loop over \<open>enumerate(self.etags)\<close>.\<close>

definition completion_part :: "nat \<times> string option \<Rightarrow> xml" where
  "completion_part p =
     Element ''Part'' None
       [Element ''ETag'' (snd p) [],
        Element ''PartNumber'' (Some (str_int (int (fst p) + 1))) []]"

definition completion_document :: "string option list \<Rightarrow> xml" where
  "completion_document es =
     Element ''CompleteMultipartUpload'' None (map completion_part (enumerate 0 es))"

definition complete_send ::
  "deps \<Rightarrow> s3client \<Rightarrow> string option list \<Rightarrow> (error + response) \<times> s3client" where
  "complete_send d self es =
     (let path = quote (loc_path (s3location self) @ lstrip_chars ''/'' (dst_file_name (meta self)));
          url0 = endpoint self @ ''/'' @ path @ ''?uploadId='' @ format_opt (upload_id self);
          root = completion_document es;
          rid = RStr ''Complete'';
          self1 = self\<lparr>retry_count := (retry_count self)(rid \<mapsto> 0)\<rparr>
      in send_request_with_authentication_and_retry d self1
           \<lparr>url = url0, verb = ''POST'', retry_id = rid,
            x_amz_headers = None, req_headers = None,
            data = Some (tostring root)\<rparr>)"

definition complete_multipart_upload :: "deps \<Rightarrow> s3client \<Rightarrow> (error + unit) \<times> s3client" where
  "complete_multipart_upload d self =
     (case etags self of
           None \<Rightarrow> (Inl TypeError, self)
         | Some es \<Rightarrow>
             (let (res, self2) = complete_send d self es
              in case res of
                   Inl e \<Rightarrow> (Inl e, self2)
                 | Inr resp \<Rightarrow> (raise_for_status resp, self2)))"

definition abort_multipart_upload :: "deps \<Rightarrow> s3client \<Rightarrow> (error + unit) \<times> s3client" where
  "abort_multipart_upload d self =
     (case upload_id self of
        None \<Rightarrow> (Inr (), self)
      | Some uid \<Rightarrow>
          (let path = quote (loc_path (s3location self) @
                             lstrip_chars ''/'' (dst_file_name (meta self)));
               url0 = endpoint self @ ''/'' @ path @ ''?uploadId='' @ uid;
               rid = RStr ''Abort'';
               self1 = self\<lparr>retry_count := (retry_count self)(rid \<mapsto> 0)\<rparr>;
               (res, self2) = send_request_with_authentication_and_retry d self1
                                \<lparr>url = url0, verb = ''DELETE'', retry_id = rid,
                                 x_amz_headers = None, req_headers = None, data = None\<rparr>
           in case res of
                Inl e \<Rightarrow> (Inl e, self2)
              | Inr resp \<Rightarrow> (raise_for_status resp, self2)))"

text \<open>The byte range of a chunk of a download in several chunks.\<close>

definition chunk_range :: "s3client \<Rightarrow> int \<Rightarrow> string" where
  "chunk_range self chunk_id =
     (if chunk_id < num_of_chunks self - 1
      then str_int (chunk_id * chunk_size self) @ ''-'' @
           str_int ((chunk_id + 1) * chunk_size self - 1)
      else str_int (chunk_id * chunk_size self) @ ''-'')"

definition download_chunk :: "deps \<Rightarrow> s3client \<Rightarrow> int \<Rightarrow> (error + unit) \<times> s3client" where
  "download_chunk d self chunk_id =
     (let path = quote (loc_path (s3location self) @ lstrip_chars ''/'' (src_file_name (meta self)));
          url0 = endpoint self @ ''/'' @ path
      in if num_of_chunks self = 1 then
           (let (res, self1) = send_request_with_authentication_and_retry d self
                                 \<lparr>url = url0, verb = ''GET'', retry_id = RInt chunk_id,
                                  x_amz_headers = None, req_headers = None, data = None\<rparr>
            in case res of
                 Inl e \<Rightarrow> (Inl e, self1)
               | Inr resp \<Rightarrow>
                   if status_code resp = 200 then
                     (let self2 = self1\<lparr>written := written self1 @ [(0, content resp)]\<rparr>
                      in case write_downloaded_chunk d 0 (content resp) of
                           Inl e \<Rightarrow> (Inl e, self2)
                         | Inr u \<Rightarrow>
                             (raise_for_status resp,
                              self2\<lparr>meta := (meta self2)\<lparr>result_status := DOWNLOADED\<rparr>\<rparr>))
                   else (raise_for_status resp, self1))
         else
           (let range = chunk_range self chunk_id;
                (res, self1) = send_request_with_authentication_and_retry d self
                                 \<lparr>url = url0, verb = ''GET'', retry_id = RInt chunk_id,
                                  x_amz_headers = None,
                                  req_headers = Some [(''Range'', HStr (''bytes='' @ range))],
                                  data = None\<rparr>
            in case res of
                 Inl e \<Rightarrow> (Inl e, self1)
               | Inr resp \<Rightarrow>
                   if status_code resp = 200 \<or> status_code resp = 206 then
                     (let self2 = self1\<lparr>written := written self1 @ [(chunk_id, content resp)]\<rparr>
                      in case write_downloaded_chunk d chunk_id (content resp) of
                           Inl e \<Rightarrow> (Inl e, self2)
                         | Inr u \<Rightarrow> (raise_for_status resp, self2))
                   else (raise_for_status resp, self1)))"

section \<open>The local client\<close>

text \<open>\<open>os.path.join\<close>, \<open>os.path.basename\<close> and \<open>os.path.dirname\<close> of \<open>posixpath\<close>.\<close>

definition path_join :: "string \<Rightarrow> string \<Rightarrow> string" where
  "path_join a b =
     (if b \<noteq> [] \<and> hd b = CHR ''/'' then b
      else if a = [] \<or> last a = CHR ''/'' then a @ b
      else a @ ''/'' @ b)"

definition basename :: "string \<Rightarrow> string" where
  "basename p = rev (takeWhile (\<lambda>c. c \<noteq> CHR ''/'') (rev p))"

definition dirname :: "string \<Rightarrow> string" where
  "dirname p =
     (let h = rev (dropWhile (\<lambda>c. c \<noteq> CHR ''/'') (rev p))
      in if h \<noteq> [] \<and> \<not> list_all (\<lambda>c. c = CHR ''/'') h
         then rev (dropWhile (\<lambda>c. c = CHR ''/'') (rev h)) else h)"

text \<open>What is copied: the file opened by name, or a stream already in memory.\<close>

datatype source = FromFile string | FromStream string

text \<open>
  The operating system is a parameter, over any type \<open>'fs\<close> of file-system states:
  \<open>expanduser\<close>; \<open>copy_lines src dst mode\<close>, which opens the source for reading when it is
  a file, opens \<open>dst\<close> in \<open>mode\<close>, writes every line of the source and closes it;
  \<open>path_exists\<close>, \<open>makedirs\<close>, and \<open>stat_size\<close>, the \<open>st_size\<close> of \<open>os.stat\<close>.
\<close>

record 'fs os_ops =
  expanduser :: "string \<Rightarrow> string"
  copy_lines :: "source \<Rightarrow> string \<Rightarrow> string \<Rightarrow> 'fs \<Rightarrow> error + 'fs"
  path_exists :: "string \<Rightarrow> 'fs \<Rightarrow> bool"
  makedirs :: "string \<Rightarrow> 'fs \<Rightarrow> error + 'fs"
  stat_size :: "string \<Rightarrow> 'fs \<Rightarrow> error + int"

definition upload_file_with_retry ::
  "'fs os_ops \<Rightarrow> 'fs \<Rightarrow> file_meta \<Rightarrow> (error + unit) \<times> 'fs \<times> file_meta" where
  "upload_file_with_retry os fs m =
     (let frd = (case src_stream m of
                   None \<Rightarrow> FromFile (real_src_file_name m)
                 | Some s \<Rightarrow>
                     FromStream (case real_src_stream m of None \<Rightarrow> s | Some r \<Rightarrow> r));
          target = path_join (expanduser os (stage_location m)) (dst_file_name m)
      in case copy_lines os frd target ''wb'' fs of
           Inl e \<Rightarrow> (Inl e, fs, m)
         | Inr fs' \<Rightarrow>
             (let m1 = (case src_stream m of
                          None \<Rightarrow> m
                        | Some s \<Rightarrow>
                            (case real_src_stream m of
                               None \<Rightarrow> m\<lparr>src_stream := Some []\<rparr>
                             | Some r \<Rightarrow> m\<lparr>real_src_stream := Some []\<rparr>))
              in (Inr (), fs', m1\<lparr>dst_file_size := upload_size m1, result_status := UPLOADED\<rparr>)))"

definition download_file ::
  "'fs os_ops \<Rightarrow> 'fs \<Rightarrow> file_meta \<Rightarrow> (error + unit) \<times> 'fs \<times> file_meta" where
  "download_file os fs m =
     (let full_src_file_name =
            path_join (expanduser os (stage_location m))
              (if \<not> (src_file_name m \<noteq> [] \<and> hd (src_file_name m) = CHR ''/'')
               then src_file_name m else drop 1 (src_file_name m));
          full_dst_file_name = path_join (local_location m) (basename (dst_file_name m));
          base_dir = dirname full_dst_file_name
      in case (if \<not> path_exists os base_dir fs then makedirs os base_dir fs else Inr fs) of
           Inl e \<Rightarrow> (Inl e, fs, m)
         | Inr fs1 \<Rightarrow>
             (case copy_lines os (FromFile full_src_file_name) full_dst_file_name ''wb+'' fs1 of
                Inl e \<Rightarrow> (Inl e, fs1, m)
              | Inr fs2 \<Rightarrow>
                  (case stat_size os full_dst_file_name fs2 of
                     Inl e \<Rightarrow> (Inl e, fs2, m)
                   | Inr st_size \<Rightarrow>
                       (Inr (), fs2, m\<lparr>dst_file_size := st_size, result_status := DOWNLOADED\<rparr>))))"

section \<open>A closed environment\<close>

text \<open>
  To run the operations on concrete inputs the parameters are filled in: a dispatcher that
  answers every call with one given outcome and leaves the counters alone, a parser that
  knows the documents listed below as \<open>ElementTree\<close> reads them and rejects every other
  text, and stand-ins for the two cryptographic primitives.
\<close>

definition known_documents :: "(string \<times> xml) list" where
  "known_documents =
     [(''<Error><Code>ExpiredToken</Code><Message>expired</Message></Error>'',
       Element ''Error'' None
         [Element ''Code'' (Some ''ExpiredToken'') [], Element ''Message'' (Some ''expired'') []]),
      (''<Error><Code>AccessDenied</Code></Error>'',
       Element ''Error'' None [Element ''Code'' (Some ''AccessDenied'') []]),
      (''<Error><Message>expired</Message></Error>'',
       Element ''Error'' None [Element ''Message'' (Some ''expired'') []]),
      (''<R><Bucket>b</Bucket><Key>k</Key><UploadId>u1</UploadId></R>'',
       Element ''R'' None
         [Element ''Bucket'' (Some ''b'') [], Element ''Key'' (Some ''k'') [],
          Element ''UploadId'' (Some ''u1'') []]),
      (''<R><Bucket>b</Bucket><Key>k</Key><UploadId /></R>'',
       Element ''R'' None
         [Element ''Bucket'' (Some ''b'') [], Element ''Key'' (Some ''k'') [],
          Element ''UploadId'' None []])]"

definition fromstring_known :: "string \<Rightarrow> error + xml" where
  "fromstring_known s =
     (case map_of known_documents s of None \<Rightarrow> Inl ParseError | Some e \<Rightarrow> Inr e)"

definition answering :: "error + response \<Rightarrow> deps" where
  "answering outcome =
     \<lparr>sha256 = (\<lambda>b. ''#'' @ b),
      hmac_sha256 = (\<lambda>k m. k @ ''|'' @ m),
      urlparse = (\<lambda>u. \<lparr>url_path = ''/stage/f'', url_params = [], url_query = [],
                        url_hostname = Some ''bucket.s3.amazonaws.com''\<rparr>),
      fromstring = fromstring_known,
      send_request_with_retry = (\<lambda>v gen rid rc. (outcome, rc)),
      write_downloaded_chunk = (\<lambda>i b. Inr ()),
      HTTP_HEADER_CONTENT_TYPE = ''Content-Type'',
      HTTP_HEADER_VALUE_OCTET_STREAM = ''application/octet-stream''\<rparr>"

definition a_meta :: file_meta where
  "a_meta =
     \<lparr>src_file_name = ''f'', real_src_file_name = ''/tmp/f'', dst_file_name = ''f'',
      src_stream = None, real_src_stream = None, stage_location = ''/stage'',
      local_location = ''/out'', sha256_digest = Some ''abc'', upload_size = 250,
      dst_file_size = - 1, result_status = PENDING\<rparr>"

definition a_client :: s3client where
  "a_client =
     \<lparr>region_name = ''us-west-2'', upload_id = None, etags = None,
      s3location = \<lparr>bucket_name = ''bucket'', loc_path = ''stage/''\<rparr>,
      endpoint = ''https://bucket.s3.amazonaws.com'', num_of_chunks = 3, chunk_size = 100,
      retry_count = Map.empty, meta = a_meta, client_encryption_metadata = None,
      sent = [], written = []\<rparr>"

definition ok_response :: "int \<Rightarrow> (string, string) dict \<Rightarrow> string \<Rightarrow> error + response" where
  "ok_response code hs body = Inr \<lparr>status_code = code, resp_headers = hs, content = body\<rparr>"

section \<open>Properties\<close>

lemma canonical_headers_lower_case_example:
  "construct_canonicalized_and_signed_headers
     [(''x-amz-date'', HStr ''d''), (''host'', HStr ''h  1''),
      (''x-amz-content-sha256'', HList [''s'', ''t''])]
   = Inr (''host:h 1'' @ nl @ ''x-amz-content-sha256:s,t'' @ nl @ ''x-amz-date:d'' @ nl,
          ''host;x-amz-content-sha256;x-amz-date'')"
  by code_simp

text \<open>
  C1. Header canonicalization is claimed to return, for every header map, the lower-cased
  names in sorted order whatever the input casing. On the header set
  \<open>{X-Amz-Date, host, X-Amz-Content-Sha256}\<close> the function returns nothing: the names are
  sorted as given and each is looked up in the dictionary of lower-cased names, so the
  first name with an upper-case letter raises \<open>KeyError\<close>.
\<close>

theorem canonical_headers_mixed_case_raises:
  "construct_canonicalized_and_signed_headers
     [(''X-Amz-Date'', HStr ''d''), (''host'', HStr ''h''),
      (''X-Amz-Content-Sha256'', HStr ''s'')]
   = Inl (KeyError ''X-Amz-Content-Sha256'')"
  by code_simp

text \<open>
  C3. The expired-token classifier answers \<open>True\<close> exactly for a response with status 400
  whose body is not blank and parses to a document whose \<open>Code\<close> element holds the marker
  \<open>ExpiredToken\<close>; for a response with any other status it answers \<open>False\<close>.
\<close>

theorem has_expired_token_iff:
  "(has_expired_token d resp = Inr True \<longleftrightarrow>
      status_code resp = 400 \<and> response_text resp \<noteq> [] \<and> \<not> isspace (response_text resp) \<and>
      (\<exists>err c. fromstring d (response_text resp) = Inr err \<and>
               elem_find ''Code'' err = Some c \<and> elem_text c = Some EXPIRED_TOKEN)) \<and>
   (status_code resp \<noteq> 400 \<longrightarrow> has_expired_token d resp = Inr False)"
  by (auto simp: has_expired_token_def Let_def split: sum.splits option.splits)

theorem has_expired_token_iff_witness:
  "has_expired_token (answering (Inl ParseError))
     \<lparr>status_code = 400, resp_headers = [],
      content = ''<Error><Code>ExpiredToken</Code><Message>expired</Message></Error>''\<rparr> = Inr True \<and>
   has_expired_token (answering (Inl ParseError))
     \<lparr>status_code = 403, resp_headers = [],
      content = ''<Error><Code>ExpiredToken</Code><Message>expired</Message></Error>''\<rparr> = Inr False"
proof -
  let ?d = "answering (Inl ParseError)"
  let ?b = "''<Error><Code>ExpiredToken</Code><Message>expired</Message></Error>''"
  have p: "fromstring ?d ?b = Inr (Element ''Error'' None
         [Element ''Code'' (Some ''ExpiredToken'') [], Element ''Message'' (Some ''expired'') []])"
    by (simp add: answering_def fromstring_known_def known_documents_def)
  have s: "\<not> isspace ?b" by (simp add: isspace_def isspace_char_def)
  show ?thesis
    using has_expired_token_iff [of ?d "\<lparr>status_code = 400, resp_headers = [], content = ?b\<rparr>"]
          has_expired_token_iff [of ?d "\<lparr>status_code = 403, resp_headers = [], content = ?b\<rparr>"]
          p s
    by (simp add: response_text_def elem_find_def EXPIRED_TOKEN_def)
qed



subsection \<open>What a send changes\<close>

text \<open>A send changes the retry counters and the record of calls, and nothing else.\<close>

lemma send_fields [simp]:
  "upload_id (snd (send_request_with_authentication_and_retry d self r)) = upload_id self"
  "etags (snd (send_request_with_authentication_and_retry d self r)) = etags self"
  "num_of_chunks (snd (send_request_with_authentication_and_retry d self r)) = num_of_chunks self"
  "chunk_size (snd (send_request_with_authentication_and_retry d self r)) = chunk_size self"
  "meta (snd (send_request_with_authentication_and_retry d self r)) = meta self"
  "sent (snd (send_request_with_authentication_and_retry d self r)) = sent self @ [r]"
  "written (snd (send_request_with_authentication_and_retry d self r)) = written self"
  by (simp_all add: send_request_with_authentication_and_retry_def Let_def split: prod.splits)

lemma head_send_answering:
  "fst (head_send (answering outcome) self filename) = outcome"
  by (simp add: head_send_def answering_def send_request_with_authentication_and_retry_def Let_def)

lemma download_chunk_sent:
  "num_of_chunks self \<noteq> 1 \<Longrightarrow>
   sent (snd (download_chunk d self i)) =
     sent self @
     [\<lparr>url = endpoint self @ ''/'' @
              quote (loc_path (s3location self) @ lstrip_chars ''/'' (src_file_name (meta self))),
       verb = ''GET'', retry_id = RInt i, x_amz_headers = None,
       req_headers = Some [(''Range'', HStr (''bytes='' @ chunk_range self i))],
       data = None\<rparr>]"
  by (simp add: download_chunk_def Let_def split_beta split: sum.split)

subsection \<open>The probe\<close>

text \<open>
  C9. Whenever the HEAD request of a probe is answered with status 200, the job's status is
  \<open>UPLOADED\<close> when the probe ends, whether it returns a header or raises on the way: the
  value a completed upload leaves, not one of its own.
\<close>

theorem probe_200_marks_uploaded:
  "fst (head_send d self filename) = Inr resp \<Longrightarrow> status_code resp = 200 \<Longrightarrow>
     result_status (meta (snd (get_file_header d self filename))) = UPLOADED"
  by (auto simp: get_file_header_def Let_def split: prod.splits sum.splits)

theorem probe_200_marks_uploaded_witness:
  "result_status (meta a_client) = PENDING \<and>
   result_status (meta (snd (get_file_header
      (answering (ok_response 200 [(''Content-Length'', ''5'')] [])) a_client ''f''))) = UPLOADED"
  using probe_200_marks_uploaded
          [of "answering (ok_response 200 [(''Content-Length'', ''5'')] [])" a_client "''f''"
              "\<lparr>status_code = 200, resp_headers = [(''Content-Length'', ''5'')], content = []\<rparr>"]
  by (simp add: head_send_answering ok_response_def a_client_def a_meta_def)




subsection \<open>Byte ranges of a download in chunks\<close>

text \<open>
  C5. In a transfer of more than one chunk, downloading chunk \<open>i\<close> hands the dispatcher one
  GET whose \<open>Range\<close> header is \<open>bytes=i*C-((i+1)*C-1)\<close> when \<open>i\<close> is before the last chunk
  and the open-ended \<open>bytes=i*C-\<close> otherwise; with three chunks of size 100 the ranges are
  \<open>0-99\<close>, \<open>100-199\<close> and \<open>200-\<close>.
\<close>

theorem download_chunk_ranges:
  assumes "1 < num_of_chunks self"
  shows
    "length (sent (snd (download_chunk d self i))) = length (sent self) + 1 \<and>
     verb (last (sent (snd (download_chunk d self i)))) = ''GET'' \<and>
     (i < num_of_chunks self - 1 \<longrightarrow>
        req_headers (last (sent (snd (download_chunk d self i)))) =
          Some [(''Range'', HStr (''bytes='' @ str_int (i * chunk_size self) @ ''-'' @
                                   str_int ((i + 1) * chunk_size self - 1)))]) \<and>
     (\<not> i < num_of_chunks self - 1 \<longrightarrow>
        req_headers (last (sent (snd (download_chunk d self i)))) =
          Some [(''Range'', HStr (''bytes='' @ str_int (i * chunk_size self) @ ''-''))])"
proof -
  from assms have "num_of_chunks self \<noteq> 1" by simp
  from download_chunk_sent [OF this, of d i] show ?thesis
    by (simp add: chunk_range_def)
qed

theorem download_chunk_ranges_witness:
  "num_of_chunks a_client = 3 \<and> chunk_size a_client = 100 \<and>
   req_headers (last (sent (snd (download_chunk (answering (ok_response 206 [] ''x'')) a_client 0))))
     = Some [(''Range'', HStr ''bytes=0-99'')] \<and>
   req_headers (last (sent (snd (download_chunk (answering (ok_response 206 [] ''x'')) a_client 1))))
     = Some [(''Range'', HStr ''bytes=100-199'')] \<and>
   req_headers (last (sent (snd (download_chunk (answering (ok_response 206 [] ''x'')) a_client 2))))
     = Some [(''Range'', HStr ''bytes=200-'')]"
proof -
  let ?d = "answering (ok_response 206 [] ''x'')"
  have n: "1 < num_of_chunks a_client" "num_of_chunks a_client = 3" "chunk_size a_client = 100"
    by (simp_all add: a_client_def)
  have s: "str_int 0 = ''0''" "str_int 99 = ''99''" "str_int 100 = ''100''"
          "str_int 199 = ''199''" "str_int 200 = ''200''"
    by code_simp+
  show ?thesis
    using download_chunk_ranges [OF n(1), of ?d 0] download_chunk_ranges [OF n(1), of ?d 1]
          download_chunk_ranges [OF n(1), of ?d 2] n s
    by simp
qed

end
